theory Spec2Isabelle
  imports Complex_Main "HOL-Library.Char_ord" "HOL-Library.List_Lexorder"
begin

section \<open>Blog content API: data model\<close>

text \<open>
  Documents of the store, as the routes read and write them. An identifier is the
  canonical string of the store's handle (\<^verbatim>\<open>_id.toString()\<close>, \<^verbatim>\<open>user.id\<close>); the
  ownership check of the routes compares exactly these strings. Times are integers
  (seconds for the token clock, any unit for \<^verbatim>\<open>createdAt\<close>).

  The password field of a user is optional because \<^verbatim>\<open>select('-password')\<close> returns
  the document without it.

  Strings. Where the code looks into a string of the client character by character
  (white space, digits, a bound on the length: the page and limit parameters and the
  names of categories), the string is a \<open>unicode\<close>, the list of its Unicode code points;
  a well-formed string (no unpaired surrogate) is such a list of scalar values, and
  \<open>js_length\<close> is its \<^verbatim>\<open>length\<close> in the source, in UTF-16 code units. \<open>codes\<close> turns
  a constant of the code into such a list. All other strings (headers, tokens, ids,
  titles, addresses, messages) are lists of \<open>char\<close>, a \<open>char\<close> standing for the code
  unit of the same value: the code compares them with each other and with its
  constants, and bounds the length of a title.
\<close>

type_synonym unicode = "nat list"

definition codes :: "string \<Rightarrow> unicode" where
  "codes s = map of_char s"


definition js_length :: "unicode \<Rightarrow> nat" where
  "js_length t = length t + length (filter (\<lambda>u. 0x10000 \<le> u) t)"

type_synonym oid = string

record user_doc =
  user_id :: oid
  username :: string
  email :: string
  password :: "string option"

record comment_doc =
  comment_user :: oid
  comment_content :: string

text \<open>
  Modelled from the spec: the Post schema (\<^verbatim>\<open>server/models/Post.js\<close>) is not among the
  sources; the fields are those of the spec's data model, which are also the ones the
  routes of \<^verbatim>\<open>server/routes/posts.js\<close> read and write.
\<close>

record post_doc =
  post_id :: oid
  title :: string
  content :: string
  category :: oid
  author :: oid
  tags :: "string list"
  excerpt :: string
  featuredImage :: string
  isPublished :: bool
  comments :: "comment_doc list"
  createdAt :: nat

record category_doc =
  category_id :: oid
  name :: unicode

record store =
  users :: "user_doc list"
  posts :: "post_doc list"
  categories :: "category_doc list"

text \<open>
  The request body of the post routes: every field may be absent (\<^verbatim>\<open>undefined\<close>).
  \<^verbatim>\<open>author\<close> is a field a client can send like any other.
\<close>

record post_body =
  body_title :: "string option"
  body_content :: "string option"
  body_category :: "string option"
  body_author :: "string option"
  body_tags :: "string list option"
  body_excerpt :: "string option"
  body_featuredImage :: "string option"
  body_isPublished :: "bool option"

record login_body =
  body_email :: "string option"
  body_password :: "string option"

section \<open>The response envelope\<close>

text \<open>
  Every body is \<^verbatim>\<open>{success, data?, error?, errors?, pagination?, message?}\<close>. A
  validation error is the pair of the field and its message. \<^verbatim>\<open>next(err)\<close> hands the
  error to the fallback handler, which is outside these sources.
\<close>

type_synonym verr = "string \<times> string"

record pagination =
  total :: int
  page :: int
  pages :: int

record post_view =
  view_post :: post_doc
  view_author :: "(oid \<times> string) option"
  view_category :: "(oid \<times> unicode) option"

record auth_data =
  auth_id :: oid
  auth_username :: string
  auth_email :: string
  auth_token :: string

datatype data =
    PostData post_doc
  | CategoryData category_doc
  | CategoryList "category_doc list"
  | AuthData auth_data

datatype body =
    Failure string
  | Failures "verr list"
  | Success data
  | SuccessMessage string
  | SuccessPage "post_view list" pagination

datatype error = ValidationError string | CastError string | MongoError string | TypeError string

datatype outcome = Response nat body | Next error

section \<open>JavaScript strings\<close>

definition startsWith :: "'a list \<Rightarrow> 'a list \<Rightarrow> bool" where
  "startsWith s p = (take (length p) s = p)"

text \<open>\<^verbatim>\<open>s.split(sep)\<close> for a one-character separator: never the empty array.\<close>

fun js_split :: "char \<Rightarrow> string \<Rightarrow> string list" where
  "js_split sep [] = [] # []"
| "js_split sep (c # cs) =
     (if c = sep then [] # js_split sep cs
      else (case js_split sep cs of
              [] \<Rightarrow> [c] # []
            | w # ws \<Rightarrow> (c # w) # ws))"

text \<open>\<^verbatim>\<open>a[i]\<close>: \<^verbatim>\<open>undefined\<close> out of range.\<close>

definition index :: "'a list \<Rightarrow> nat \<Rightarrow> 'a option" where
  "index xs i = (if i < length xs then Some (xs ! i) else None)"

section \<open>Token Service\<close>

text \<open>
  Modelled from the spec: \<^verbatim>\<open>jwt.sign\<close> and \<^verbatim>\<open>jwt.verify\<close> belong to the
  \<^verbatim>\<open>jsonwebtoken\<close> package, which is not among the sources. A token is an opaque signed
  string encoding the subject's id, the time of issue and the expiry; verification
  fails if the token is malformed, if its signature is invalid or if the expiry has
  passed. The signature scheme and the wire encoding are the parameter \<open>jwt_lib\<close>:
  \<open>encode\<close> serialises and signs the claims under a secret, \<open>decode\<close> returns the
  claims of a well-formed token signed under the secret and nothing otherwise. The
  clock is a parameter, in seconds.
\<close>

record jwt_claims =
  claim_id :: oid
  iat :: nat
  exp :: nat

record jwt_lib =
  encode :: "string \<Rightarrow> jwt_claims \<Rightarrow> string"
  decode :: "string \<Rightarrow> string \<Rightarrow> jwt_claims option"

datatype jwt_error = JsonWebTokenError | TokenExpiredError

definition jwt_sign :: "jwt_lib \<Rightarrow> oid \<Rightarrow> string \<Rightarrow> nat \<Rightarrow> nat \<Rightarrow> string" where
  "jwt_sign lib ident secret expiresIn now =
     encode lib secret \<lparr>claim_id = ident, iat = now, exp = now + expiresIn\<rparr>"

definition jwt_verify ::
  "jwt_lib \<Rightarrow> string option \<Rightarrow> string \<Rightarrow> nat \<Rightarrow> jwt_error + jwt_claims" where
  "jwt_verify lib token secret now =
     (case token of
        None \<Rightarrow> Inl JsonWebTokenError
      | Some t \<Rightarrow>
          if t = [] then Inl JsonWebTokenError
          else (case decode lib secret t of
                  None \<Rightarrow> Inl JsonWebTokenError
                | Some c \<Rightarrow> if exp c \<le> now then Inl TokenExpiredError else Inr c))"

text \<open>\<^verbatim>\<open>expiresIn: '7d'\<close>, in seconds.\<close>

definition seven_days :: nat where
  "seven_days = 7 * 24 * 60 * 60"

text \<open>\<^verbatim>\<open>generateToken\<close> of \<^verbatim>\<open>server/routes/auth.js\<close>.\<close>

definition generateToken :: "jwt_lib \<Rightarrow> string \<Rightarrow> nat \<Rightarrow> user_doc \<Rightarrow> string" where
  "generateToken lib secret now user = jwt_sign lib (user_id user) secret seven_days now"

section \<open>Credential store\<close>

definition findById :: "user_doc list \<Rightarrow> oid \<Rightarrow> user_doc option" where
  "findById us i = find (\<lambda>u. user_id u = i) us"

definition select_minus_password :: "user_doc option \<Rightarrow> user_doc option" where
  "select_minus_password r = map_option (\<lambda>u. u\<lparr>password := None\<rparr>) r"

definition findOne_email :: "user_doc list \<Rightarrow> string \<Rightarrow> user_doc option" where
  "findOne_email us e = find (\<lambda>u. email u = e) us"

section \<open>Auth Gate\<close>

text \<open>
  \<^verbatim>\<open>authMiddleware\<close> of \<^verbatim>\<open>server/middleware/auth.js\<close>. The result is either the
  response sent (\<^verbatim>\<open>next\<close> is not called) or the identity attached to the request, with
  which \<^verbatim>\<open>next()\<close> is called. An empty header is falsy, like an absent one. Any
  exception inside \<^verbatim>\<open>try\<close> ends in the \<^verbatim>\<open>catch\<close> branch.
\<close>

datatype gate = Rejected nat body | Proceed user_doc

definition authMiddleware ::
  "jwt_lib \<Rightarrow> string \<Rightarrow> nat \<Rightarrow> user_doc list \<Rightarrow> string option \<Rightarrow> gate" where
  "authMiddleware lib secret now us authorization =
     (case authorization of
        None \<Rightarrow> Rejected 401 (Failure ''No token provided'')
      | Some h \<Rightarrow>
          if h \<noteq> [] \<and> startsWith h ''Bearer'' then
            (let token = index (js_split CHR '' '' h) 1 in
             case jwt_verify lib token secret now of
               Inl err \<Rightarrow> Rejected 401 (Failure ''Not authorized'')
             | Inr decoded \<Rightarrow>
                 (case select_minus_password (findById us (claim_id decoded)) of
                    None \<Rightarrow> Rejected 401 (Failure ''User not found'')
                  | Some user \<Rightarrow> Proceed user))
          else Rejected 401 (Failure ''No token provided''))"

text \<open>
  A protected route: the gate first, the handler only when the gate calls \<^verbatim>\<open>next()\<close>.
\<close>

definition protected ::
  "jwt_lib \<Rightarrow> string \<Rightarrow> nat \<Rightarrow> string option \<Rightarrow>
   (user_doc \<Rightarrow> store \<Rightarrow> outcome \<times> store) \<Rightarrow> store \<Rightarrow> outcome \<times> store" where
  "protected lib secret now authorization handler st =
     (case authMiddleware lib secret now (users st) authorization of
        Rejected code b \<Rightarrow> (Response code b, st)
      | Proceed user \<Rightarrow> handler user st)"

section \<open>Validation rules of the routes\<close>

text \<open>
  The chains of \<^verbatim>\<open>express-validator\<close>, in the order of the arrays; a chain has no
  \<^verbatim>\<open>bail()\<close>, so each validator of a chain reports on its own. An absent field is
  validated as the empty string; \<^verbatim>\<open>optional()\<close> skips an absent field. A validator
  without \<^verbatim>\<open>withMessage\<close> reports \<^verbatim>\<open>Invalid value\<close>.
\<close>

definition str :: "'a list option \<Rightarrow> 'a list" where
  "str v = (case v of None \<Rightarrow> [] | Some s \<Rightarrow> s)"

definition notEmpty :: "string \<Rightarrow> string \<Rightarrow> 'a list option \<Rightarrow> verr list" where
  "notEmpty field msg v = (if str v = [] then [(field, msg)] else [])"

definition isLength_max :: "string \<Rightarrow> nat \<Rightarrow> string option \<Rightarrow> verr list" where
  "isLength_max field n v = (if length (str v) \<le> n then [] else [(field, ''Invalid value'')])"

definition optional :: "(string option \<Rightarrow> verr list) \<Rightarrow> string option \<Rightarrow> verr list" where
  "optional chain v = (case v of None \<Rightarrow> [] | Some s \<Rightarrow> chain v)"

definition validate_create :: "post_body \<Rightarrow> verr list" where
  "validate_create b =
     notEmpty ''title'' ''Title is required'' (body_title b)
     @ isLength_max ''title'' 100 (body_title b)
     @ notEmpty ''content'' ''Content is required'' (body_content b)
     @ notEmpty ''category'' ''Category is required'' (body_category b)"

definition validate_update :: "post_body \<Rightarrow> verr list" where
  "validate_update b =
     optional (isLength_max ''title'' 100) (body_title b)
     @ optional (\<lambda>v. []) (body_content b)
     @ optional (\<lambda>v. []) (body_category b)"

section \<open>Post routes\<close>

text \<open>
  The store casts a string to a handle before it uses it as an id, in \<^verbatim>\<open>findById\<close> and
  in a filter on a reference; a string it cannot cast raises \<^verbatim>\<open>CastError\<close>. Which strings
  it accepts depends on the version of the store's packages, which the sources do not
  fix, so the cast is the parameter \<open>cast\<close>: the canonical string of the handle, or
  nothing.

  \<^verbatim>\<open>Post.findById(postId)\<close>: the error, or the document of that id if there is one.
\<close>

definition findPostById ::
  "(string \<Rightarrow> oid option) \<Rightarrow> post_doc list \<Rightarrow> string \<Rightarrow> error + post_doc option" where
  "findPostById cast ps i =
     (case cast i of
        None \<Rightarrow> Inl (CastError ''_id'')
      | Some h \<Rightarrow> Inr (find (\<lambda>p. post_id p = h) ps))"

text \<open>\<^verbatim>\<open>post.save()\<close> of a fetched document replaces the stored one of the same id.\<close>

fun save_post :: "post_doc \<Rightarrow> post_doc list \<Rightarrow> post_doc list" where
  "save_post p [] = []"
| "save_post p (q # qs) = (if post_id q = post_id p then p # qs else q # save_post p qs)"

text \<open>\<^verbatim>\<open>post.remove()\<close> deletes the stored document of that id.\<close>

fun remove_post :: "post_doc \<Rightarrow> post_doc list \<Rightarrow> post_doc list" where
  "remove_post p [] = []"
| "remove_post p (q # qs) = (if post_id q = post_id p then qs else q # remove_post p qs)"

text \<open>\<^verbatim>\<open>Object.assign(post, req.body)\<close>: every field present in the body is written.\<close>

definition assign :: "post_doc \<Rightarrow> post_body \<Rightarrow> post_doc" where
  "assign p b =
     p\<lparr>title := case_option (title p) id (body_title b),
       content := case_option (content p) id (body_content b),
       category := case_option (category p) id (body_category b),
       author := case_option (author p) id (body_author b),
       tags := case_option (tags p) id (body_tags b),
       excerpt := case_option (excerpt p) id (body_excerpt b),
       featuredImage := case_option (featuredImage p) id (body_featuredImage b),
       isPublished := case_option (isPublished p) id (body_isPublished b)\<rparr>"

text \<open>\<^verbatim>\<open>s || d\<close> on a string that may be absent: the empty string is falsy.\<close>

definition or_string :: "string option \<Rightarrow> string \<Rightarrow> string" where
  "or_string v d = (if str v = [] then d else str v)"

text \<open>
  \<^verbatim>\<open>POST /api/posts\<close>. The validators of the Post schema run inside \<^verbatim>\<open>save()\<close>; the
  schema is not among the sources, so they are the parameter \<open>schema_ok\<close>. The id of
  the new document and the clock are parameters.
\<close>

definition create_post ::
  "(post_doc \<Rightarrow> bool) \<Rightarrow> oid \<Rightarrow> nat \<Rightarrow> post_body \<Rightarrow> user_doc \<Rightarrow> store \<Rightarrow> outcome \<times> store" where
  "create_post schema_ok new_id now b user st =
     (let errors = validate_create b in
      if errors \<noteq> [] then (Response 400 (Failures errors), st)
      else
        let post = \<lparr>post_id = new_id,
                    title = str (body_title b),
                    content = str (body_content b),
                    category = str (body_category b),
                    author = user_id user,
                    tags = case_option [] id (body_tags b),
                    excerpt = or_string (body_excerpt b) [],
                    featuredImage = or_string (body_featuredImage b) ''default-post.jpg'',
                    isPublished = case_option False id (body_isPublished b),
                    comments = [],
                    createdAt = now\<rparr>
        in if \<not> schema_ok post then (Next (ValidationError ''Post validation failed''), st)
           else (Response 201 (Success (PostData post)), st\<lparr>posts := posts st @ [post]\<rparr>))"

text \<open>
  \<^verbatim>\<open>PUT /api/posts/:id\<close>, the handler behind the gate. An error raised by the fetch is
  caught and passed to \<^verbatim>\<open>next\<close>.
\<close>

definition update_post ::
  "(string \<Rightarrow> oid option) \<Rightarrow> (post_doc \<Rightarrow> bool) \<Rightarrow> string \<Rightarrow> post_body \<Rightarrow> user_doc \<Rightarrow> store \<Rightarrow>
   outcome \<times> store" where
  "update_post cast schema_ok postId b user st =
     (case findPostById cast (posts st) postId of
        Inl err \<Rightarrow> (Next err, st)
      | Inr None \<Rightarrow> (Response 404 (Failure ''Post not found''), st)
      | Inr (Some post) \<Rightarrow>
          if author post \<noteq> user_id user then (Response 403 (Failure ''Unauthorized''), st)
          else
            let errors = validate_update b in
            if errors \<noteq> [] then (Response 400 (Failures errors), st)
            else
              let post' = assign post b in
              if \<not> schema_ok post' then (Next (ValidationError ''Post validation failed''), st)
              else (Response 200 (Success (PostData post')),
                    st\<lparr>posts := save_post post' (posts st)\<rparr>))"

text \<open>\<^verbatim>\<open>DELETE /api/posts/:id\<close>, the handler behind the gate.\<close>

definition delete_post ::
  "(string \<Rightarrow> oid option) \<Rightarrow> string \<Rightarrow> user_doc \<Rightarrow> store \<Rightarrow> outcome \<times> store" where
  "delete_post cast postId user st =
     (case findPostById cast (posts st) postId of
        Inl err \<Rightarrow> (Next err, st)
      | Inr None \<Rightarrow> (Response 404 (Failure ''Post not found''), st)
      | Inr (Some post) \<Rightarrow>
          if author post \<noteq> user_id user then (Response 403 (Failure ''Unauthorized''), st)
          else (Response 200 (SuccessMessage ''Post deleted''),
                st\<lparr>posts := remove_post post (posts st)\<rparr>))"

section \<open>Listing posts\<close>

text \<open>
  \<^verbatim>\<open>parseInt(s)\<close> without a radix: leading white space is skipped, a sign is read, a
  prefix \<^verbatim>\<open>0x\<close> selects base 16, then the longest run of digits is the value; no digit
  gives \<^verbatim>\<open>NaN\<close>, here \<open>None\<close>. An absent parameter is \<^verbatim>\<open>undefined\<close>, which parses
  to \<^verbatim>\<open>NaN\<close>. White space is what \<^verbatim>\<open>parseInt\<close> and \<^verbatim>\<open>trim\<close> skip: the white space
  and the line terminators of ECMAScript.

  The source computes on doubles, the model on integers. The two agree on the safe
  integers, those of absolute value below \<open>2 ^ 53\<close>; the statements about the numbers
  of a request carry that bound.
\<close>

definition is_space :: "nat \<Rightarrow> bool" where
  "is_space u =
     (u \<in> {0x09, 0x0A, 0x0B, 0x0C, 0x0D, 0x20, 0xA0, 0x1680, 0x2028, 0x2029, 0x202F, 0x205F,
           0x3000, 0xFEFF}
      \<or> (0x2000 \<le> u \<and> u \<le> 0x200A))"

definition isSafeInteger :: "int \<Rightarrow> bool" where
  "isSafeInteger n = (\<bar>n\<bar> < 2 ^ 53)"

definition digit_of :: "nat \<Rightarrow> nat \<Rightarrow> nat option" where
  "digit_of radix n =
     (let d = (if 48 \<le> n \<and> n \<le> 57 then Some (n - 48)
               else if 97 \<le> n \<and> n \<le> 102 then Some (n - 87)
               else if 65 \<le> n \<and> n \<le> 70 then Some (n - 55)
               else None)
      in case d of None \<Rightarrow> None | Some v \<Rightarrow> if v < radix then Some v else None)"

fun leading_digits :: "nat \<Rightarrow> unicode \<Rightarrow> nat list" where
  "leading_digits radix [] = []"
| "leading_digits radix (c # cs) =
     (case digit_of radix c of None \<Rightarrow> [] | Some d \<Rightarrow> d # leading_digits radix cs)"

definition parseInt :: "unicode option \<Rightarrow> int option" where
  "parseInt v =
     (case v of
        None \<Rightarrow> None
      | Some s \<Rightarrow>
          let s1 = dropWhile is_space s;
              negative = startsWith s1 (codes ''-'');
              s2 = (if startsWith s1 (codes ''-'') \<or> startsWith s1 (codes ''+'')
                    then drop 1 s1 else s1);
              hex = (startsWith s2 (codes ''0x'') \<or> startsWith s2 (codes ''0X''));
              radix = (if hex then 16 else 10);
              ds = leading_digits radix (if hex then drop 2 s2 else s2);
              n = int (foldl (\<lambda>a d. a * radix + d) 0 ds)
          in if ds = [] then None else Some (if negative then - n else n))"

text \<open>\<^verbatim>\<open>n || d\<close> on a number: \<^verbatim>\<open>NaN\<close> and \<open>0\<close> are falsy.\<close>

definition or_int :: "int option \<Rightarrow> int \<Rightarrow> int" where
  "or_int v d = (case v of None \<Rightarrow> d | Some n \<Rightarrow> if n = 0 then d else n)"

record list_query =
  query_page :: "unicode option"
  query_limit :: "unicode option"
  query_category :: "string option"

text \<open>
  The query of the store: the documents matching the filter, sorted by \<^verbatim>\<open>createdAt\<close>
  descending (the sort is applied before \<^verbatim>\<open>skip\<close> and \<^verbatim>\<open>limit\<close>, whatever the order of
  the calls on the query; documents of equal time keep the order of the store), then
  \<^verbatim>\<open>skip\<close>, then \<^verbatim>\<open>limit\<close>. The store refuses a negative \<^verbatim>\<open>skip\<close>, reads a negative
  \<^verbatim>\<open>limit\<close> as its absolute value and a \<^verbatim>\<open>limit\<close> of 0 as no limit. The filter holds
  the category only when the parameter is truthy; the store casts it to a handle and
  raises \<^verbatim>\<open>CastError\<close> when it cannot. Each parameter is given at most once.
\<close>

definition matching ::
  "(string \<Rightarrow> oid option) \<Rightarrow> string option \<Rightarrow> post_doc list \<Rightarrow> error + post_doc list" where
  "matching cast cat ps =
     (if str cat = [] then Inr ps
      else case cast (str cat) of
             None \<Rightarrow> Inl (CastError ''category'')
           | Some h \<Rightarrow> Inr (filter (\<lambda>p. category p = h) ps))"

definition sort_createdAt_desc :: "post_doc list \<Rightarrow> post_doc list" where
  "sort_createdAt_desc ps = sort_key (\<lambda>p. - int (createdAt p)) ps"

definition skip_limit :: "int \<Rightarrow> int \<Rightarrow> 'a list \<Rightarrow> error + 'a list" where
  "skip_limit s l xs =
     (if s < 0 then Inl (MongoError ''Skip value must be non-negative'')
      else if l = 0 then Inr (drop (nat s) xs)
      else Inr (take (nat \<bar>l\<bar>) (drop (nat s) xs)))"

text \<open>\<^verbatim>\<open>populate\<close>: the reference is replaced by the id and the one selected field.\<close>

definition populate :: "store \<Rightarrow> post_doc \<Rightarrow> post_view" where
  "populate st p =
     \<lparr>view_post = p,
      view_author = map_option (\<lambda>u. (user_id u, username u))
                      (find (\<lambda>u. user_id u = author p) (users st)),
      view_category = map_option (\<lambda>c. (category_id c, name c))
                      (find (\<lambda>c. category_id c = category p) (categories st))\<rparr>"

text \<open>\<^verbatim>\<open>Math.ceil(total / limit)\<close> for a limit other than 0.\<close>

definition ceil_div :: "int \<Rightarrow> int \<Rightarrow> int" where
  "ceil_div a b = - ((- a) div b)"

text \<open>\<^verbatim>\<open>GET /api/posts\<close>. An error raised by the store is caught and passed to \<^verbatim>\<open>next\<close>.\<close>

definition list_posts :: "(string \<Rightarrow> oid option) \<Rightarrow> list_query \<Rightarrow> store \<Rightarrow> outcome" where
  "list_posts cast q st =
     (let page = or_int (parseInt (query_page q)) 1;
          limit = or_int (parseInt (query_limit q)) 10
      in case matching cast (query_category q) (posts st) of
           Inl err \<Rightarrow> Next err
         | Inr found \<Rightarrow>
             (case skip_limit ((page - 1) * limit) limit (sort_createdAt_desc found) of
                Inl err \<Rightarrow> Next err
              | Inr ps \<Rightarrow>
                  Response 200
                    (SuccessPage (map (populate st) ps)
                       \<lparr>total = int (length found), page = page,
                        pages = ceil_div (int (length found)) limit\<rparr>)))"

section \<open>Category routes\<close>

text \<open>
  The Category schema of \<^verbatim>\<open>server/models/Category.js\<close>: \<^verbatim>\<open>name\<close> is trimmed
  (\<^verbatim>\<open>String.prototype.trim\<close>) when it is set and when it is the value of a query, and
  \<^verbatim>\<open>save()\<close> validates that it is present (not empty) and that its \<^verbatim>\<open>length\<close> is at
  most 50.
\<close>

definition trim :: "unicode \<Rightarrow> unicode" where
  "trim s = rev (dropWhile is_space (rev (dropWhile is_space s)))"

definition validate_category :: "category_doc \<Rightarrow> string option" where
  "validate_category c =
     (if name c = [] then Some ''Please provide a category name''
      else if 50 < js_length (name c)
      then Some ''Category name cannot be more than 50 characters''
      else None)"

definition findOne_name :: "category_doc list \<Rightarrow> unicode \<Rightarrow> category_doc option" where
  "findOne_name cs n = find (\<lambda>c. name c = trim n) cs"


text \<open>
  \<^verbatim>\<open>POST /api/categories\<close>, the handler behind the gate. The id of the new document is
  a parameter: the store generates one that no document has.
\<close>

definition create_category ::
  "oid \<Rightarrow> unicode option \<Rightarrow> user_doc \<Rightarrow> store \<Rightarrow> outcome \<times> store" where
  "create_category new_id body_name user st =
     (let errors = notEmpty ''name'' ''Category name is required'' body_name in
      if errors \<noteq> [] then (Response 400 (Failures errors), st)
      else
        case findOne_name (categories st) (str body_name) of
          Some existing \<Rightarrow> (Response 400 (Failure ''Category already exists''), st)
        | None \<Rightarrow>
            let category = \<lparr>category_id = new_id, name = trim (str body_name)\<rparr> in
            (case validate_category category of
               Some msg \<Rightarrow> (Next (ValidationError msg), st)
             | None \<Rightarrow> (Response 201 (Success (CategoryData category)),
                        st\<lparr>categories := categories st @ [category]\<rparr>)))"

section \<open>Login\<close>

text \<open>
  \<^verbatim>\<open>POST /api/auth/login\<close>. \<^verbatim>\<open>isEmail\<close> of the validator package and \<^verbatim>\<open>matchPassword\<close>
  of the User model (not among the sources) are parameters. After validation both
  fields are present.
\<close>

definition validate_login :: "(string \<Rightarrow> bool) \<Rightarrow> login_body \<Rightarrow> verr list" where
  "validate_login isEmail b =
     (case body_email b of
        None \<Rightarrow> [(''email'', ''Valid email is required'')]
      | Some e \<Rightarrow> if isEmail e then [] else [(''email'', ''Valid email is required'')])
     @ notEmpty ''password'' ''Password is required'' (body_password b)"

definition login ::
  "jwt_lib \<Rightarrow> string \<Rightarrow> nat \<Rightarrow> (string \<Rightarrow> bool) \<Rightarrow> (user_doc \<Rightarrow> string \<Rightarrow> bool) \<Rightarrow>
   login_body \<Rightarrow> store \<Rightarrow> outcome" where
  "login lib secret now isEmail matchPassword b st =
     (let errors = validate_login isEmail b in
      if errors \<noteq> [] then Response 400 (Failures errors)
      else
        let email = str (body_email b); password = str (body_password b) in
        case findOne_email (users st) email of
          None \<Rightarrow> Response 401 (Failure ''Invalid credentials'')
        | Some user \<Rightarrow>
            if \<not> matchPassword user password
            then Response 401 (Failure ''Invalid credentials'')
            else Response 200 (Success (AuthData
                   \<lparr>auth_id = user_id user, auth_username = username user,
                    auth_email = email, auth_token = generateToken lib secret now user\<rparr>)))"

section \<open>Sample data\<close>

text \<open>
  A small store and a toy token codec, used to run the routes on concrete requests.
  Identifiers have the shape of the store's handles, 24 hexadecimal digits. The toy
  codec prefixes the subject's id with the secret and a dot; it reads back a token of
  that shape as issued at time 0.
\<close>

abbreviation alice_id :: oid where
  "alice_id \<equiv> ''a00000000000000000000001''"

abbreviation bob_id :: oid where
  "bob_id \<equiv> ''b00000000000000000000002''"

abbreviation news_id :: oid where
  "news_id \<equiv> ''c00000000000000000000003''"

abbreviation post1_id :: oid where
  "post1_id \<equiv> ''d00000000000000000000004''"


abbreviation fresh_id :: oid where
  "fresh_id \<equiv> ''c00000000000000000000005''"

definition alice :: user_doc where
  "alice = \<lparr>user_id = alice_id, username = ''alice'', email = ''alice@example.com'',
            password = Some ''hash-a''\<rparr>"

definition bob :: user_doc where
  "bob = \<lparr>user_id = bob_id, username = ''bob'', email = ''bob@example.com'',
          password = Some ''hash-b''\<rparr>"

definition news :: category_doc where
  "news = \<lparr>category_id = news_id, name = codes ''News''\<rparr>"

definition sample_post :: "oid \<Rightarrow> nat \<Rightarrow> post_doc" where
  "sample_post i t =
     \<lparr>post_id = i, title = ''Hello'', content = ''First post'', category = news_id,
      author = alice_id, tags = [], excerpt = [], featuredImage = ''default-post.jpg'',
      isPublished = True, comments = [], createdAt = t\<rparr>"

definition sample_store :: store where
  "sample_store =
     \<lparr>users = [alice, bob], posts = [sample_post post1_id 100], categories = [news]\<rparr>"

definition twelve_posts :: store where
  "twelve_posts =
     \<lparr>users = [alice, bob],
      posts = map2 sample_post
                [''e00000000000000000000001'', ''e00000000000000000000002'',
                 ''e00000000000000000000003'', ''e00000000000000000000004'',
                 ''e00000000000000000000005'', ''e00000000000000000000006'',
                 ''e00000000000000000000007'', ''e00000000000000000000008'',
                 ''e00000000000000000000009'', ''e00000000000000000000010'',
                 ''e00000000000000000000011'', ''e00000000000000000000012'']
                [1..<13],
      categories = [news]\<rparr>"

definition no_fields :: post_body where
  "no_fields = \<lparr>body_title = None, body_content = None, body_category = None,
                body_author = None, body_tags = None, body_excerpt = None,
                body_featuredImage = None, body_isPublished = None\<rparr>"

definition toy_lib :: jwt_lib where
  "toy_lib =
     \<lparr>encode = (\<lambda>secret c. secret @ ''.'' @ claim_id c),
      decode = (\<lambda>secret t.
         if startsWith t (secret @ ''.'')
         then Some \<lparr>claim_id = drop (length secret + 1) t, iat = 0, exp = seven_days\<rparr>
         else None)\<rparr>"

definition accept_all :: "post_doc \<Rightarrow> bool" where
  "accept_all p = True"

text \<open>
  A cast for the sample store: 24 hexadecimal digits are a handle, written in lower
  case; nothing else is.
\<close>

definition is_hex :: "char \<Rightarrow> bool" where
  "is_hex c = (digit_of 16 (of_char c) \<noteq> None)"

definition to_lower :: "char \<Rightarrow> char" where
  "to_lower c =
     (if 65 \<le> (of_char c :: nat) \<and> (of_char c :: nat) \<le> 90 then char_of (of_char c + 32 :: nat)
      else c)"

definition hex24 :: "string \<Rightarrow> oid option" where
  "hex24 s = (if length s = 24 \<and> list_all is_hex s then Some (map to_lower s) else None)"

text \<open>
  A second toy codec, which reads back every token it writes: the two times in unary,
  then the secret and the subject's id, separated by dots.
\<close>

definition unary_lib :: jwt_lib where
  "unary_lib =
     \<lparr>encode = (\<lambda>secret c.
         replicate (iat c) CHR ''i'' @ ''.'' @ replicate (exp c) CHR ''e'' @ ''.''
         @ secret @ ''.'' @ claim_id c),
      decode = (\<lambda>secret t.
         let r1 = dropWhile (\<lambda>x. x = CHR ''i'') t;
             r2 = dropWhile (\<lambda>x. x = CHR ''e'') (drop 1 r1);
             r3 = drop 1 r2
         in if startsWith r1 ''.'' \<and> startsWith r2 ''.'' \<and> startsWith r3 (secret @ ''.'')
            then Some \<lparr>claim_id = drop (length secret + 1) r3,
                       iat = length (takeWhile (\<lambda>x. x = CHR ''i'') t),
                       exp = length (takeWhile (\<lambda>x. x = CHR ''e'') (drop 1 r1))\<rparr>
            else None)\<rparr>"


definition author_bob :: post_body where
  "author_bob = no_fields\<lparr>body_author := Some bob_id\<rparr>"


definition has_at :: "string \<Rightarrow> bool" where
  "has_at e = (CHR ''@'' \<in> set e)"

definition plain_match :: "user_doc \<Rightarrow> string \<Rightarrow> bool" where
  "plain_match u pw = (password u = Some (''hash-'' @ pw))"



definition page0_limit0 :: list_query where
  "page0_limit0 =
     \<lparr>query_page = Some (codes ''0''), query_limit = Some (codes ''0''), query_category = None\<rparr>"

section \<open>Ownership policy\<close>

lemma hex24_post1: "hex24 post1_id = Some post1_id"
  by (simp add: hex24_def is_hex_def digit_of_def to_lower_def)



lemma findPostById_sample:
  "findPostById hex24 (posts sample_store) post1_id = Inr (Some (sample_post post1_id 100))"
  by (simp add: findPostById_def hex24_post1) (simp add: sample_store_def sample_post_def)



lemma validate_update_no_fields: "validate_update no_fields = []"
  by (simp add: validate_update_def no_fields_def optional_def)


text \<open>
  Claim C1. An update or a delete of an existing post by an identity whose id differs
  from the post's author, with a body that passes validation, is answered 403 with
  \<^verbatim>\<open>{success:false, error:'Unauthorized'}\<close>, and the store is left as it was: the post
  is neither modified nor deleted.
\<close>

theorem ownership_mismatch_forbidden:
  assumes "findPostById cast (posts st) postId = Inr (Some post)"
      and "validate_update b = []"
      and "author post \<noteq> user_id user"
  shows "update_post cast schema_ok postId b user st
           = (Response 403 (Failure ''Unauthorized''), st)
       \<and> delete_post cast postId user st = (Response 403 (Failure ''Unauthorized''), st)"
  using assms by (simp add: update_post_def delete_post_def)

theorem ownership_mismatch_forbidden_witness:
  "findPostById hex24 (posts sample_store) post1_id = Inr (Some (sample_post post1_id 100))
   \<and> validate_update no_fields = []
   \<and> author (sample_post post1_id 100) \<noteq> user_id bob
   \<and> update_post hex24 accept_all post1_id no_fields bob sample_store
       = (Response 403 (Failure ''Unauthorized''), sample_store)
   \<and> delete_post hex24 post1_id bob sample_store
       = (Response 403 (Failure ''Unauthorized''), sample_store)"
proof -
  have f: "findPostById hex24 (posts sample_store) post1_id
             = Inr (Some (sample_post post1_id 100))"
    by (rule findPostById_sample)
  have v: "validate_update no_fields = []"
    by (rule validate_update_no_fields)
  have a: "author (sample_post post1_id 100) \<noteq> user_id bob"
    by (simp add: sample_post_def bob_def)
  from ownership_mismatch_forbidden [OF f v a, of accept_all] f v a show ?thesis by simp
qed

subsection \<open>The author field under update\<close>

text \<open>
  What an accepted update stores: the merge of the body into the post, whose author is
  the body's \<^verbatim>\<open>author\<close> when the body has one. Creation, by contrast, takes the author
  from the acting identity whatever the body says.
\<close>

lemma update_post_accepted:
  assumes "findPostById cast (posts st) postId = Inr (Some post)"
      and "author post = user_id user"
      and "validate_update b = []"
      and "schema_ok (assign post b)"
  shows "update_post cast schema_ok postId b user st
           = (Response 200 (Success (PostData (assign post b))),
              st\<lparr>posts := save_post (assign post b) (posts st)\<rparr>)"
    and "author (assign post b) = (case body_author b of None \<Rightarrow> author post | Some a \<Rightarrow> a)"
proof -
  show "update_post cast schema_ok postId b user st
           = (Response 200 (Success (PostData (assign post b))),
              st\<lparr>posts := save_post (assign post b) (posts st)\<rparr>)"
    using assms by (simp add: update_post_def Let_def)
  show "author (assign post b) = (case body_author b of None \<Rightarrow> author post | Some a \<Rightarrow> a)"
    by (simp add: assign_def split: option.splits)
qed

lemma create_post_author:
  "create_post schema_ok new_id now b user st = (Response code (Success (PostData p)), st')
   \<Longrightarrow> author p = user_id user"
  by (auto simp: create_post_def Let_def split: if_splits)

text \<open>
  Claim C2. The claim is that the author of a post is the same before and after every
  accepted update, whatever the body. The handler merges the whole body into the post:
  the author of the sample post, alice, sends a body whose only field is
  \<^verbatim>\<open>author\<close> with bob's id; the update passes the ownership check and validation, is
  answered 200, and the stored post now names bob as its author.
\<close>

theorem update_overwrites_author:
  "validate_update author_bob = []
   \<and> author (sample_post post1_id 100) = user_id alice
   \<and> update_post hex24 accept_all post1_id author_bob alice sample_store
       = (Response 200 (Success (PostData ((sample_post post1_id 100)\<lparr>author := bob_id\<rparr>))),
          sample_store\<lparr>posts := [(sample_post post1_id 100)\<lparr>author := bob_id\<rparr>]\<rparr>)
   \<and> author ((sample_post post1_id 100)\<lparr>author := bob_id\<rparr>) \<noteq> author (sample_post post1_id 100)"
  apply (simp add: update_post_def findPostById_sample)
  apply (simp add: validate_update_def author_bob_def no_fields_def optional_def accept_all_def
      assign_def sample_post_def alice_def sample_store_def Let_def)
  done

subsection \<open>Order of the checks\<close>




section \<open>Auth Gate\<close>

lemma startsWith_nonempty: "startsWith h ''Bearer'' \<Longrightarrow> h \<noteq> []"
  by (auto simp: startsWith_def)

lemma js_split_no_sep: "sep \<notin> set s \<Longrightarrow> js_split sep s = [s]"
  by (induction s) auto

text \<open>
  Claim C4. The gate is a total case analysis. No header, or a header that does not
  start with \<^verbatim>\<open>Bearer\<close>: 401 \<^verbatim>\<open>No token provided\<close>. Otherwise, if verification of the
  extracted token fails: 401 \<^verbatim>\<open>Not authorized\<close>. Otherwise, if no identity has the id
  of the token's subject: 401 \<^verbatim>\<open>User not found\<close>. Otherwise the identity, without its
  password field, is attached and the pipeline proceeds. Every rejection is a 401 and
  short-circuits a protected route: the handler does not run and the store is unchanged.
\<close>

theorem auth_gate_cases:
  "authMiddleware lib secret now us authorization =
     (case authorization of
        None \<Rightarrow> Rejected 401 (Failure ''No token provided'')
      | Some h \<Rightarrow>
          if \<not> startsWith h ''Bearer'' then Rejected 401 (Failure ''No token provided'')
          else (case jwt_verify lib (index (js_split CHR '' '' h) 1) secret now of
                  Inl err \<Rightarrow> Rejected 401 (Failure ''Not authorized'')
                | Inr decoded \<Rightarrow>
                    (case findById us (claim_id decoded) of
                       None \<Rightarrow> Rejected 401 (Failure ''User not found'')
                     | Some u \<Rightarrow> Proceed (u\<lparr>password := None\<rparr>))))
   \<and> (\<forall>code b. authMiddleware lib secret now (users st) authorization = Rejected code b \<longrightarrow>
         code = 401 \<and> protected lib secret now authorization handler st = (Response code b, st))
   \<and> (\<forall>u. authMiddleware lib secret now (users st) authorization = Proceed u \<longrightarrow>
         password u = None \<and> protected lib secret now authorization handler st = handler u st)"
  by (auto simp: authMiddleware_def protected_def select_minus_password_def Let_def
        dest: startsWith_nonempty split: option.splits sum.splits if_splits)

theorem auth_gate_cases_witness:
  "authMiddleware toy_lib ''s3cret'' 5 (users sample_store) None
     = Rejected 401 (Failure ''No token provided'')
   \<and> protected toy_lib ''s3cret'' 5 None (delete_post hex24 post1_id) sample_store
     = (Response 401 (Failure ''No token provided''), sample_store)
   \<and> authMiddleware toy_lib ''s3cret'' 5 (users sample_store) (Some ''Bearer s3cret.a00000000000000000000001'')
     = Proceed (alice\<lparr>password := None\<rparr>)
   \<and> protected toy_lib ''s3cret'' 5 (Some ''Bearer s3cret.a00000000000000000000001'')
       (delete_post hex24 post1_id) sample_store
     = delete_post hex24 post1_id (alice\<lparr>password := None\<rparr>) sample_store"
proof -
  note none = auth_gate_cases [where lib = toy_lib and secret = "''s3cret''" and now = 5
      and us = "users sample_store" and st = sample_store and authorization = None
      and handler = "delete_post hex24 post1_id"]
  note some = auth_gate_cases [where lib = toy_lib and secret = "''s3cret''" and now = 5
      and us = "users sample_store" and st = sample_store
      and authorization = "Some ''Bearer s3cret.a00000000000000000000001''"
      and handler = "delete_post hex24 post1_id"]
  have r: "authMiddleware toy_lib ''s3cret'' 5 (users sample_store) None
     = Rejected 401 (Failure ''No token provided'')"
    using none [THEN conjunct1] by simp
  have v: "jwt_verify toy_lib (index (js_split CHR '' '' ''Bearer s3cret.a00000000000000000000001'') 1) ''s3cret'' 5
             = Inr \<lparr>claim_id = alice_id, iat = 0, exp = seven_days\<rparr>"
    by (simp add: index_def jwt_verify_def toy_lib_def startsWith_def seven_days_def)
  have u: "findById (users sample_store) alice_id = Some alice"
    by (simp add: findById_def sample_store_def alice_def)
  have b: "startsWith ''Bearer s3cret.a00000000000000000000001'' ''Bearer''"
    by (simp add: startsWith_def)
  have p: "authMiddleware toy_lib ''s3cret'' 5 (users sample_store) (Some ''Bearer s3cret.a00000000000000000000001'')
     = Proceed (alice\<lparr>password := None\<rparr>)"
    by (simp only: some [THEN conjunct1] option.case b v u sum.case not_True_eq_False if_False
          jwt_claims.select_convs)
  from none [THEN conjunct2, THEN conjunct1, rule_format, OF r]
  have r': "protected toy_lib ''s3cret'' 5 None (delete_post hex24 post1_id) sample_store
     = (Response 401 (Failure ''No token provided''), sample_store)"
    by (rule conjunct2)
  from some [THEN conjunct2, THEN conjunct2, rule_format, OF p]
  have p': "protected toy_lib ''s3cret'' 5 (Some ''Bearer s3cret.a00000000000000000000001'')
       (delete_post hex24 post1_id) sample_store
     = delete_post hex24 post1_id (alice\<lparr>password := None\<rparr>) sample_store"
    by (rule conjunct2)
  from r r' p p' show ?thesis by (intro conjI)
qed

text \<open>
  Claim C9. A header that starts with \<^verbatim>\<open>Bearer\<close> and has no second segment separated
  by a space (for example exactly \<^verbatim>\<open>Bearer\<close>) yields no token: the extracted segment
  is \<^verbatim>\<open>undefined\<close>, verification fails, and the gate answers 401 \<^verbatim>\<open>Not authorized\<close>, not
  \<^verbatim>\<open>No token provided\<close>.
\<close>

theorem bearer_without_token_not_authorized:
  assumes "startsWith h ''Bearer''" and "CHR '' '' \<notin> set h"
  shows "index (js_split CHR '' '' h) 1 = None
       \<and> authMiddleware lib secret now us (Some h) = Rejected 401 (Failure ''Not authorized'')
       \<and> authMiddleware lib secret now us (Some h) \<noteq> Rejected 401 (Failure ''No token provided'')"
  using assms startsWith_nonempty [OF assms(1)]
  by (simp add: authMiddleware_def js_split_no_sep index_def jwt_verify_def)

theorem bearer_without_token_not_authorized_witness:
  "startsWith ''Bearer'' ''Bearer'' \<and> CHR '' '' \<notin> set ''Bearer''
   \<and> authMiddleware toy_lib ''s3cret'' 5 [alice] (Some ''Bearer'')
        = Rejected 401 (Failure ''Not authorized'')"
proof -
  have s: "startsWith ''Bearer'' ''Bearer''" by (simp add: startsWith_def)
  have n: "CHR '' '' \<notin> set ''Bearer''" by simp
  from bearer_without_token_not_authorized [OF s n, of toy_lib "''s3cret''" 5 "[alice]"] s n
  show ?thesis by simp
qed

section \<open>Token Service\<close>

lemma dropWhile_replicate_other:
  "b \<noteq> a \<Longrightarrow> dropWhile (\<lambda>x. x = a) (replicate n a @ b # ys) = b # ys"
  by (induction n) simp_all

lemma takeWhile_replicate_other:
  "b \<noteq> a \<Longrightarrow> takeWhile (\<lambda>x. x = a) (replicate n a @ b # ys) = replicate n a"
  by (induction n) simp_all

lemma unary_lib_reads_back: "decode unary_lib secret (encode unary_lib secret c) = Some c"
  by (simp add: unary_lib_def dropWhile_replicate_other takeWhile_replicate_other
        startsWith_def)

lemma unary_token:
  "generateToken unary_lib secret now x
     = replicate now CHR ''i'' @ ''.'' @ replicate (now + seven_days) CHR ''e'' @ ''.''
       @ secret @ ''.'' @ user_id x"
  by (simp add: generateToken_def jwt_sign_def unary_lib_def)

text \<open>
  What \<^verbatim>\<open>generateToken\<close> signs: the identity's id, the time of issue and an expiry
  seven days later.
\<close>

lemma generateToken_claims:
  "generateToken lib secret now x
     = encode lib secret \<lparr>claim_id = user_id x, iat = now, exp = now + seven_days\<rparr>"
  by (simp add: generateToken_def jwt_sign_def)

text \<open>
  Claim C5. Round trip: a token issued for an identity and verified at the time of
  issue yields that identity's id; verified once seven days have passed it fails, and
  the gate, given the token as bearer, answers 401 \<^verbatim>\<open>Not authorized\<close>. The package is
  assumed to read back, under the same secret, the claims of every token it writes;
  the issued token is assumed not to be empty and to hold no space.
\<close>

theorem token_round_trip:
  assumes reads_back: "\<And>c. decode lib secret (encode lib secret c) = Some c"
      and "generateToken lib secret now x \<noteq> []"
      and "CHR '' '' \<notin> set (generateToken lib secret now x)"
  shows "(\<exists>c. jwt_verify lib (Some (generateToken lib secret now x)) secret now = Inr c
             \<and> claim_id c = user_id x)
       \<and> (\<forall>later. now + seven_days \<le> later \<longrightarrow>
             jwt_verify lib (Some (generateToken lib secret now x)) secret later
               = Inl TokenExpiredError
           \<and> authMiddleware lib secret later us (Some (''Bearer '' @ generateToken lib secret now x))
               = Rejected 401 (Failure ''Not authorized''))"
proof -
  have d: "decode lib secret (generateToken lib secret now x)
             = Some \<lparr>claim_id = user_id x, iat = now, exp = now + seven_days\<rparr>"
    unfolding generateToken_claims by (rule reads_back)
  from d assms(2,3) show ?thesis
    by (simp add: jwt_verify_def authMiddleware_def js_split_no_sep index_def startsWith_def
          seven_days_def)
qed

theorem token_round_trip_witness:
  "(\<forall>c. decode unary_lib ''s3cret'' (encode unary_lib ''s3cret'' c) = Some c)
   \<and> generateToken unary_lib ''s3cret'' 3 alice \<noteq> []
   \<and> CHR '' '' \<notin> set (generateToken unary_lib ''s3cret'' 3 alice)
   \<and> (\<exists>c. jwt_verify unary_lib (Some (generateToken unary_lib ''s3cret'' 3 alice)) ''s3cret'' 3
            = Inr c
          \<and> claim_id c = user_id alice)
   \<and> 3 + seven_days \<le> 604803
   \<and> jwt_verify unary_lib (Some (generateToken unary_lib ''s3cret'' 3 alice)) ''s3cret'' 604803
        = Inl TokenExpiredError
   \<and> authMiddleware unary_lib ''s3cret'' 604803 [alice]
        (Some (''Bearer '' @ generateToken unary_lib ''s3cret'' 3 alice))
        = Rejected 401 (Failure ''Not authorized'')"
proof -
  have r: "\<And>c. decode unary_lib ''s3cret'' (encode unary_lib ''s3cret'' c) = Some c"
    by (rule unary_lib_reads_back)
  have n: "generateToken unary_lib ''s3cret'' 3 alice \<noteq> []"
    by (simp add: unary_token)
  have s: "CHR '' '' \<notin> set (generateToken unary_lib ''s3cret'' 3 alice)"
    by (simp add: unary_token alice_def)
  have w: "3 + seven_days \<le> 604803" by (simp add: seven_days_def)
  note t = token_round_trip [of unary_lib "''s3cret''" 3 alice "[alice]", OF r n s]
  from t [THEN conjunct1] t [THEN conjunct2, rule_format, OF w] r n s w
  show ?thesis by (intro conjI allI) simp_all
qed

section \<open>Login\<close>

text \<open>
  Claim C6. For well-formed login bodies, an email unknown to the credential store
  and a known email with a password that does not match are answered by the same
  response, 401 with \<^verbatim>\<open>{success:false, error:'Invalid credentials'}\<close>: the response
  does not tell which check failed.
\<close>

theorem login_failures_indistinguishable:
  assumes "validate_login isEmail b1 = []" and "validate_login isEmail b2 = []"
      and "findOne_email (users st1) (str (body_email b1)) = None"
      and "findOne_email (users st2) (str (body_email b2)) = Some u"
      and "\<not> matchPassword u (str (body_password b2))"
  shows "login lib1 secret1 now1 isEmail matchPassword b1 st1
           = Response 401 (Failure ''Invalid credentials'')
       \<and> login lib2 secret2 now2 isEmail matchPassword b2 st2
           = Response 401 (Failure ''Invalid credentials'')
       \<and> login lib1 secret1 now1 isEmail matchPassword b1 st1
           = login lib2 secret2 now2 isEmail matchPassword b2 st2"
  using assms by (simp add: login_def)

theorem login_failures_indistinguishable_witness:
  "validate_login has_at \<lparr>body_email = Some ''carol@example.com'', body_password = Some ''a''\<rparr> = []
   \<and> validate_login has_at \<lparr>body_email = Some ''alice@example.com'', body_password = Some ''zzz''\<rparr> = []
   \<and> findOne_email (users sample_store) ''carol@example.com'' = None
   \<and> findOne_email (users sample_store) ''alice@example.com'' = Some alice
   \<and> \<not> plain_match alice ''zzz''
   \<and> login toy_lib ''s3cret'' 0 has_at plain_match
        \<lparr>body_email = Some ''carol@example.com'', body_password = Some ''a''\<rparr> sample_store
       = Response 401 (Failure ''Invalid credentials'')
   \<and> login toy_lib ''s3cret'' 0 has_at plain_match
        \<lparr>body_email = Some ''alice@example.com'', body_password = Some ''zzz''\<rparr> sample_store
       = Response 401 (Failure ''Invalid credentials'')"
proof -
  let ?b1 = "\<lparr>body_email = Some ''carol@example.com'', body_password = Some ''a''\<rparr>"
  let ?b2 = "\<lparr>body_email = Some ''alice@example.com'', body_password = Some ''zzz''\<rparr>"
  have v1: "validate_login has_at ?b1 = []"
    by (simp add: validate_login_def has_at_def notEmpty_def str_def)
  have v2: "validate_login has_at ?b2 = []"
    by (simp add: validate_login_def has_at_def notEmpty_def str_def)
  have f1: "findOne_email (users sample_store) (str (body_email ?b1)) = None"
    by (simp add: findOne_email_def sample_store_def alice_def bob_def str_def)
  have f2: "findOne_email (users sample_store) (str (body_email ?b2)) = Some alice"
    by (simp add: findOne_email_def sample_store_def alice_def bob_def str_def)
  have m: "\<not> plain_match alice (str (body_password ?b2))"
    by (simp add: plain_match_def alice_def str_def)
  from login_failures_indistinguishable
         [where isEmail = has_at and matchPassword = plain_match and ?b1.0 = ?b1 and ?b2.0 = ?b2
            and ?st1.0 = sample_store and ?st2.0 = sample_store and u = alice
            and ?lib1.0 = toy_lib and ?lib2.0 = toy_lib and ?secret1.0 = "''s3cret''"
            and ?secret2.0 = "''s3cret''" and ?now1.0 = 0 and ?now2.0 = 0,
          OF v1 v2 f1 f2 m]
    v1 v2 f1 f2 m
  show ?thesis by (simp add: str_def)
qed

section \<open>Listing posts\<close>

lemma ceil_div_ceiling: "ceil_div a b = \<lceil>real_of_int a / real_of_int b\<rceil>"
  by (simp add: ceil_div_def ceiling_divide_eq_div)



lemma length_sort_createdAt_desc: "length (sort_createdAt_desc ps) = length ps"
  by (simp add: sort_createdAt_desc_def)




lemma parseInt_0: "parseInt (Some (codes ''0'')) = Some 0"
  by (simp add: parseInt_def codes_def startsWith_def is_space_def digit_of_def Let_def)

lemma parseInt_1: "parseInt (Some (codes ''1'')) = Some 1"
  by (simp add: parseInt_def codes_def startsWith_def is_space_def digit_of_def Let_def)



lemma parseInt_10: "parseInt (Some (codes ''10'')) = Some 10"
  by (simp add: parseInt_def codes_def startsWith_def is_space_def digit_of_def Let_def)


lemma parseInt_abc: "parseInt (Some (codes ''abc'')) = None"
  by (simp add: parseInt_def codes_def startsWith_def is_space_def digit_of_def Let_def)

lemma parseInt_undefined: "parseInt None = None"
  by (simp add: parseInt_def)

lemma matching_all: "matching cast None ps = Inr ps"
  by (simp add: matching_def str_def)

text \<open>
  A no-break space (U+00A0) before the digits is skipped like a space; a
  category that is not a handle ends the request with the store's error.
\<close>

lemma parseInt_nbsp_5: "parseInt (Some (0xA0 # codes ''5'')) = Some 5"
  by (simp add: parseInt_def codes_def startsWith_def is_space_def digit_of_def Let_def)

lemma list_posts_category_news:
  "list_posts hex24 \<lparr>query_page = None, query_limit = None, query_category = Some ''news''\<rparr>
     sample_store = Next (CastError ''category'')"
  by (simp add: list_posts_def matching_def str_def hex24_def)




text \<open>
  Claim C10. A page or limit parameter that parses to 0 or to \<^verbatim>\<open>NaN\<close> (absent or not
  numeric) falls back to the default: the request is answered as the same request
  with \<^verbatim>\<open>page=1\<close>, respectively \<^verbatim>\<open>limit=10\<close>; a page so answered is page 1,
  respectively holds at most 10 items. The limit is never taken as 0: when the store
  finds the matching posts, the page holds the next 10 of them, as many as are left
  and never none while some are left (the page number, the number of posts skipped and
  the number of matching posts being safe integers). \<^verbatim>\<open>limit=0\<close> and \<^verbatim>\<open>page=0\<close> are
  such parameters.
\<close>

theorem falsy_page_and_limit_default:
  "(parseInt (query_page q) = None \<or> parseInt (query_page q) = Some 0 \<longrightarrow>
      list_posts cast q st = list_posts cast (q\<lparr>query_page := Some (codes ''1'')\<rparr>) st
    \<and> (\<forall>items pg. list_posts cast q st = Response 200 (SuccessPage items pg) \<longrightarrow>
          page pg = 1))
 \<and> (parseInt (query_limit q) = None \<or> parseInt (query_limit q) = Some 0 \<longrightarrow>
      list_posts cast q st = list_posts cast (q\<lparr>query_limit := Some (codes ''10'')\<rparr>) st
    \<and> (\<forall>items pg. list_posts cast q st = Response 200 (SuccessPage items pg) \<longrightarrow>
          length items \<le> 10)
    \<and> (\<forall>p found. or_int (parseInt (query_page q)) 1 = p \<and> 1 \<le> p
          \<and> matching cast (query_category q) (posts st) = Inr found
          \<and> isSafeInteger p \<and> isSafeInteger ((p - 1) * 10)
          \<and> isSafeInteger (int (length found)) \<longrightarrow>
         (\<exists>items pg. list_posts cast q st = Response 200 (SuccessPage items pg)
            \<and> page pg = p
            \<and> pages pg = \<lceil>real (length found) / 10\<rceil>
            \<and> length items = min 10 (length found - nat ((p - 1) * 10)))))
 \<and> parseInt None = None \<and> parseInt (Some (codes ''abc'')) = None
 \<and> parseInt (Some (codes ''0'')) = Some 0"
proof (intro conjI impI allI)
  assume "parseInt (query_page q) = None \<or> parseInt (query_page q) = Some 0"
  then show "list_posts cast q st = list_posts cast (q\<lparr>query_page := Some (codes ''1'')\<rparr>) st"
    by (auto simp: list_posts_def or_int_def parseInt_1)
next
  fix items pg
  assume "parseInt (query_page q) = None \<or> parseInt (query_page q) = Some 0"
    and r: "list_posts cast q st = Response 200 (SuccessPage items pg)"
  then have "or_int (parseInt (query_page q)) 1 = 1" by (auto simp: or_int_def)
  with r show "page pg = 1"
    by (auto simp: list_posts_def Let_def split: sum.splits)
next
  assume "parseInt (query_limit q) = None \<or> parseInt (query_limit q) = Some 0"
  then show "list_posts cast q st = list_posts cast (q\<lparr>query_limit := Some (codes ''10'')\<rparr>) st"
    by (auto simp: list_posts_def or_int_def parseInt_10)
next
  fix items pg
  assume "parseInt (query_limit q) = None \<or> parseInt (query_limit q) = Some 0"
    and r: "list_posts cast q st = Response 200 (SuccessPage items pg)"
  then have "or_int (parseInt (query_limit q)) 10 = 10" by (auto simp: or_int_def)
  with r show "length items \<le> 10"
    by (auto simp: list_posts_def skip_limit_def Let_def split: sum.splits if_splits)
next
  fix p found
  assume l: "parseInt (query_limit q) = None \<or> parseInt (query_limit q) = Some 0"
    and h: "or_int (parseInt (query_page q)) 1 = p \<and> 1 \<le> p
          \<and> matching cast (query_category q) (posts st) = Inr found
          \<and> isSafeInteger p \<and> isSafeInteger ((p - 1) * 10)
          \<and> isSafeInteger (int (length found))"
  from l have l10: "or_int (parseInt (query_limit q)) 10 = 10" by (auto simp: or_int_def)
  from h have s: "\<not> (p - 1) * 10 < 0" by simp
  from h have p: "or_int (parseInt (query_page q)) 1 = p"
    and m: "matching cast (query_category q) (posts st) = Inr found" by simp_all
  show "\<exists>items pg. list_posts cast q st = Response 200 (SuccessPage items pg)
            \<and> page pg = p
            \<and> pages pg = \<lceil>real (length found) / 10\<rceil>
            \<and> length items = min 10 (length found - nat ((p - 1) * 10))"
    using p m l10 s
    by (simp add: list_posts_def skip_limit_def Let_def ceil_div_ceiling
          length_sort_createdAt_desc min.commute)
qed (rule parseInt_undefined parseInt_abc parseInt_0)+

theorem falsy_page_and_limit_default_witness:
  "parseInt (query_page page0_limit0) = Some 0 \<and> parseInt (query_limit page0_limit0) = Some 0
   \<and> matching hex24 (query_category page0_limit0) (posts twelve_posts) = Inr (posts twelve_posts)
   \<and> isSafeInteger 1 \<and> isSafeInteger ((1 - 1) * 10) \<and> isSafeInteger 12
   \<and> list_posts hex24 page0_limit0 twelve_posts
       = list_posts hex24 (page0_limit0\<lparr>query_page := Some (codes ''1'')\<rparr>) twelve_posts
   \<and> list_posts hex24 page0_limit0 twelve_posts
       = list_posts hex24 (page0_limit0\<lparr>query_limit := Some (codes ''10'')\<rparr>) twelve_posts
   \<and> (\<exists>items pg. list_posts hex24 page0_limit0 twelve_posts = Response 200 (SuccessPage items pg)
         \<and> page pg = 1 \<and> pages pg = 2 \<and> length items = 10)"
proof -
  have p: "parseInt (query_page page0_limit0) = Some 0"
    by (simp add: page0_limit0_def parseInt_0)
  have l: "parseInt (query_limit page0_limit0) = Some 0"
    by (simp add: page0_limit0_def parseInt_0)
  have m: "matching hex24 (query_category page0_limit0) (posts twelve_posts)
             = Inr (posts twelve_posts)"
    by (simp add: page0_limit0_def matching_all)
  have n: "length (posts twelve_posts) = 12"
    by (simp add: twelve_posts_def)
  have s1: "isSafeInteger 1" and s0: "isSafeInteger ((1 - 1) * 10)" and s12: "isSafeInteger 12"
    by (simp_all add: isSafeInteger_def)
  have o: "or_int (parseInt (query_page page0_limit0)) 1 = 1 \<and> (1::int) \<le> 1
          \<and> matching hex24 (query_category page0_limit0) (posts twelve_posts)
               = Inr (posts twelve_posts)
          \<and> isSafeInteger 1 \<and> isSafeInteger ((1 - 1) * 10)
          \<and> isSafeInteger (int (length (posts twelve_posts)))"
    using m s1 s0 s12 by (simp add: p or_int_def n)
  have c: "\<lceil>real 12 / 10\<rceil> = 2" by simp
  note t = falsy_page_and_limit_default [of page0_limit0 hex24 twelve_posts]
  note t1 = t [THEN conjunct1, rule_format, OF disjI2, OF p]
  from t1 [THEN conjunct1]
  have one: "list_posts hex24 page0_limit0 twelve_posts
       = list_posts hex24 (page0_limit0\<lparr>query_page := Some (codes ''1'')\<rparr>) twelve_posts" .
  note t2 = t [THEN conjunct2, THEN conjunct1, rule_format, OF disjI2, OF l]
  from t2 [THEN conjunct1]
  have two: "list_posts hex24 page0_limit0 twelve_posts
       = list_posts hex24 (page0_limit0\<lparr>query_limit := Some (codes ''10'')\<rparr>) twelve_posts" .
  from t2 [THEN conjunct2, THEN conjunct2, rule_format, OF o]
  have three: "\<exists>items pg. list_posts hex24 page0_limit0 twelve_posts
                 = Response 200 (SuccessPage items pg)
         \<and> page pg = 1 \<and> pages pg = 2 \<and> length items = 10"
    by (simp add: n c)
  from p l m s1 s0 s12 one two three show ?thesis by (intro conjI)
qed

section \<open>Categories\<close>








text \<open>
  White space other than the space is trimmed as well: the name \<^verbatim>\<open>News\<close> followed by
  a no-break space (U+00A0), or preceded by an em space (U+2003), is the existing name
  \<^verbatim>\<open>News\<close>.
\<close>

lemma trim_News_nbsp: "trim (codes ''News'' @ [0xA0]) = codes ''News''"
  by (simp add: trim_def codes_def is_space_def)

lemma trim_emsp_News: "trim (0x2003 # codes ''News'') = codes ''News''"
  by (simp add: trim_def codes_def is_space_def)

lemma create_category_News_nbsp:
  "create_category fresh_id (Some (codes ''News'' @ [0xA0])) alice sample_store
     = (Response 400 (Failure ''Category already exists''), sample_store)"
  by (simp add: create_category_def notEmpty_def str_def findOne_name_def trim_News_nbsp
        sample_store_def news_def)




end
